theory Spec2Isabelle
  imports Main "HOL-Library.Finite_Map"
begin

section \<open>Data model of BrowserReducer.js\<close>

text \<open>
  A URL-valued field of the JavaScript records is either \<open>null\<close> or a string:
  \<open>None\<close> stands for \<open>null\<close>. JavaScript's truthiness test on such a value
  (\<open>if (foregroundTaskUrl)\<close>) fails for \<open>null\<close> and for the empty string.
\<close>

type_synonym url = "string option"

definition truthy :: "url \<Rightarrow> bool" where
  "truthy u = (case u of None \<Rightarrow> False | Some s \<Rightarrow> s \<noteq> [])"

text \<open>Manifests and initial props are arbitrary structured documents.\<close>

datatype json =
    JNull
  | JBool bool
  | JNum int
  | JStr string
  | JArr "json list"
  | JObj "(string \<times> json) list"

record LoadingError =
  code :: int
  message :: "string option"
  originalUrl :: url
  errorManifest :: json

record HistoryItem =
  url :: url
  historyBundleUrl :: url
  historyManifestUrl :: url
  historyManifest :: json
  time :: "int option"

record BrowserTask =
  bundleUrl :: url
  manifestUrl :: url
  manifest :: json
  isLoading :: bool
  loadingError :: "LoadingError option"
  initialProps :: json

record BrowserState =
  isShell :: bool
  shellManifestUrl :: url
  shellInitialUrl :: url
  isHomeVisible :: bool
  isKernelLoading :: bool
  foregroundTaskUrl :: url
  tasks :: "(url, BrowserTask) fmap"
  history :: "HistoryItem list"

text \<open>The default-constructed \<open>BrowserState\<close> record, the reducer's initial state.\<close>

definition initialState :: BrowserState where
  "initialState =
     \<lparr> isShell = False, shellManifestUrl = None, shellInitialUrl = None,
       isHomeVisible = True, isKernelLoading = False, foregroundTaskUrl = None,
       tasks = fmempty, history = [] \<rparr>"

text \<open>The \<open>meta\<close> object of the begin phase of \<open>navigateToUrlAsync\<close>.\<close>

record NavigateMeta =
  metaUrl :: url
  metaBundleUrl :: url
  metaManifestUrl :: url
  metaManifest :: json
  metaInitialProps :: json
  historyItem :: HistoryItem

section \<open>Helper functions of the reducer\<close>

text \<open>
  \<open>new HistoryItem(item)\<close> reads the five fields of the record off the object it is
  given. The error payload of \<open>showLoadingError\<close> is modelled by the \<open>LoadingError\<close>
  record that \<open>new LoadingError(action.payload)\<close> builds from it in the same way.
\<close>

definition newHistoryItem :: "HistoryItem \<Rightarrow> HistoryItem" where
  "newHistoryItem item =
     \<lparr> url = url item, historyBundleUrl = historyBundleUrl item,
       historyManifestUrl = historyManifestUrl item,
       historyManifest = historyManifest item, time = time item \<rparr>"

definition createImmutableHistory :: "HistoryItem list \<Rightarrow> HistoryItem list" where
  "createImmutableHistory items = map (\<lambda>item. newHistoryItem item) items"

definition createImmutableTask :: "NavigateMeta \<Rightarrow> url \<times> BrowserTask" where
  "createImmutableTask meta =
     (metaUrl meta,
      \<lparr> bundleUrl = metaBundleUrl meta, manifestUrl = metaManifestUrl meta,
        manifest = metaManifest meta, isLoading = False, loadingError = None,
        initialProps = metaInitialProps meta \<rparr>)"

definition validateBrowserState :: "BrowserState \<Rightarrow> BrowserState" where
  "validateBrowserState state =
     (if truthy (foregroundTaskUrl state)
      then state\<lparr> tasks :=
             fmfilter (\<lambda>u. u = foregroundTaskUrl state \<or>
                            (isShell state \<and> u = shellManifestUrl state))
                      (tasks state) \<rparr>
      else state)"

text \<open>
  The lazy sequences of the Immutable library, which is not among the sources.
  \<open>valueSeq()\<close> of a map is a lazy sequence of its values, whose \<open>size\<close> is the
  number of entries of the map. \<open>filter\<close> on a lazy sequence returns another lazy
  sequence: its elements are computed only when it is iterated, and its \<open>size\<close>
  property is \<open>undefined\<close> (here \<open>None\<close>); only \<open>count()\<close> would iterate it.
\<close>

record 'a lazySeq =
  seqValues :: "'a fset"
  seqSize :: "nat option"

definition valueSeq :: "('k, 'v) fmap \<Rightarrow> 'v lazySeq" where
  "valueSeq m = \<lparr> seqValues = fmran m, seqSize = Some (fcard (fmdom m)) \<rparr>"

definition filterSeq :: "('a \<Rightarrow> bool) \<Rightarrow> 'a lazySeq \<Rightarrow> 'a lazySeq" where
  "filterSeq P sq = \<lparr> seqValues = ffilter P (seqValues sq), seqSize = None \<rparr>"

text \<open>
  JavaScript's \<open>n > 0\<close> for a \<open>size\<close> property: \<open>undefined > 0\<close> compares
  \<open>NaN\<close> with \<open>0\<close> and is false.
\<close>

definition greaterThanZero :: "nat option \<Rightarrow> bool" where
  "greaterThanZero n = (case n of None \<Rightarrow> False | Some k \<Rightarrow> 0 < k)"

text \<open>\<open>updatedTasks.valueSeq().filter(task => task.isLoading).size > 0\<close>\<close>

definition isAnythingLoading :: "(url, BrowserTask) fmap \<Rightarrow> bool" where
  "isAnythingLoading ts = greaterThanZero (seqSize (filterSeq isLoading (valueSeq ts)))"

section \<open>The handlers\<close>

text \<open>
  One definition for each entry of the handler table, in the order of the source. A handler
  takes the state and the fields of the action it reads, and returns the next state. The
  calls of \<open>console.error\<close> report to the console and leave the returned state as it
  is, so they have no counterpart here.
\<close>

definition navigateToUrlAsync_begin :: "BrowserState \<Rightarrow> NavigateMeta \<Rightarrow> BrowserState" where
  "navigateToUrlAsync_begin state meta =
     (case createImmutableTask meta of (u, task) \<Rightarrow>
        let item = newHistoryItem (historyItem meta);
            hist = item # filter (\<lambda>i. url i \<noteq> url item) (history state)
        in validateBrowserState
             (state\<lparr> isHomeVisible := False, foregroundTaskUrl := u,
                     tasks := fmupd u task (tasks state), history := hist \<rparr>))"

definition navigateToUrlAsync_then :: "BrowserState \<Rightarrow> HistoryItem list \<Rightarrow> BrowserState" where
  "navigateToUrlAsync_then state payload =
     state\<lparr> history := createImmutableHistory payload \<rparr>"

definition navigateToUrlAsync_catch :: "BrowserState \<Rightarrow> string \<Rightarrow> BrowserState" where
  "navigateToUrlAsync_catch state payload = state\<lparr> isKernelLoading := False \<rparr>"

definition foregroundUrlAsync :: "BrowserState \<Rightarrow> url \<Rightarrow> BrowserState" where
  "foregroundUrlAsync state u =
     (if u = None \<or> u |\<in>| fmdom (tasks state)
      then state\<lparr> isHomeVisible := False, foregroundTaskUrl := u \<rparr>
      else state)"

definition foregroundHomeAsync :: "BrowserState \<Rightarrow> BrowserState" where
  "foregroundHomeAsync state =
     (if isShell state then state else state\<lparr> isHomeVisible := True \<rparr>)"

definition setKernelLoadingState :: "BrowserState \<Rightarrow> bool \<Rightarrow> BrowserState" where
  "setKernelLoadingState state loading = state\<lparr> isKernelLoading := loading \<rparr>"

definition setLoadingState :: "BrowserState \<Rightarrow> url \<Rightarrow> bool \<Rightarrow> BrowserState" where
  "setLoadingState state u loading =
     (case fmlookup (tasks state) u of
        Some task \<Rightarrow>
          let updatedTasks =
                fmupd u (task\<lparr> isLoading := loading,
                               loadingError := (if loading then None else loadingError task) \<rparr>)
                      (tasks state)
          in state\<lparr> isKernelLoading := isAnythingLoading updatedTasks,
                    tasks := updatedTasks \<rparr>
      | None \<Rightarrow> state)"

definition setShellPropertiesAsync :: "BrowserState \<Rightarrow> bool \<Rightarrow> url \<Rightarrow> BrowserState" where
  "setShellPropertiesAsync state shell manifestU =
     state\<lparr> isShell := shell, isHomeVisible := False, shellManifestUrl := manifestU \<rparr>"

definition setInitialShellUrl :: "BrowserState \<Rightarrow> url \<Rightarrow> BrowserState" where
  "setInitialShellUrl state u = state\<lparr> shellInitialUrl := u \<rparr>"

definition loadHistoryAsync_then :: "BrowserState \<Rightarrow> HistoryItem list \<Rightarrow> BrowserState" where
  "loadHistoryAsync_then state payloadHistory =
     state\<lparr> history := createImmutableHistory payloadHistory \<rparr>"

definition clearHistoryAsync_then :: "BrowserState \<Rightarrow> BrowserState" where
  "clearHistoryAsync_then state = state\<lparr> history := [] \<rparr>"

definition showLoadingError :: "BrowserState \<Rightarrow> LoadingError \<Rightarrow> BrowserState" where
  "showLoadingError state payload =
     (let task =
            (case fmlookup (tasks state) (originalUrl payload) of
               Some t \<Rightarrow> t\<lparr> isLoading := False, initialProps := JNull,
                            loadingError := Some payload \<rparr>
             | None \<Rightarrow> \<lparr> bundleUrl = None, manifestUrl = None, manifest = JNull,
                          isLoading = False, loadingError = Some payload,
                          initialProps = JNull \<rparr>);
          updatedTasks = fmupd (originalUrl payload) task (tasks state)
      in validateBrowserState
           (state\<lparr> isHomeVisible := False, foregroundTaskUrl := originalUrl payload,
                   isKernelLoading := isAnythingLoading updatedTasks,
                   tasks := updatedTasks \<rparr>))"

definition clearTaskWithError :: "BrowserState \<Rightarrow> url \<Rightarrow> BrowserState" where
  "clearTaskWithError state u =
     (case fmlookup (tasks state) u of
        Some task \<Rightarrow>
          state\<lparr> isHomeVisible := True, foregroundTaskUrl := None,
                  tasks := fmdrop u (tasks state) \<rparr>
      | None \<Rightarrow> state)"

definition logUncaughtError :: "BrowserState \<Rightarrow> url \<Rightarrow> BrowserState" where
  "logUncaughtError state u =
     (case fmlookup (tasks state) u of
        Some task \<Rightarrow> state\<lparr> tasks := fmupd u (task\<lparr> isLoading := False \<rparr>) (tasks state) \<rparr>
      | None \<Rightarrow> state)"

section \<open>The reducer\<close>

datatype action =
    NavigateToUrlBegin NavigateMeta
  | NavigateToUrlThen "HistoryItem list"
  | NavigateToUrlCatch string
  | ForegroundUrl url
  | ForegroundHome
  | SetKernelLoadingState bool
  | SetLoadingState url bool
  | SetShellProperties bool url
  | SetInitialShellUrl url
  | LoadHistoryThen "HistoryItem list"
  | ClearHistoryThen
  | ShowLoadingError LoadingError
  | ClearTaskWithError url
  | LogUncaughtError url

text \<open>
  Modelled from the spec: \<open>Flux.createReducer\<close> and \<open>Flux.getActionTypes\<close> are not
  among the sources. The reducer matches on the kind of the action and, for an asynchronous
  action, on its phase (begin, then, catch), and applies the handler the table gives for it.
\<close>

fun reducer :: "BrowserState \<Rightarrow> action \<Rightarrow> BrowserState" where
  "reducer s (NavigateToUrlBegin meta) = navigateToUrlAsync_begin s meta"
| "reducer s (NavigateToUrlThen payload) = navigateToUrlAsync_then s payload"
| "reducer s (NavigateToUrlCatch payload) = navigateToUrlAsync_catch s payload"
| "reducer s (ForegroundUrl u) = foregroundUrlAsync s u"
| "reducer s ForegroundHome = foregroundHomeAsync s"
| "reducer s (SetKernelLoadingState b) = setKernelLoadingState s b"
| "reducer s (SetLoadingState u b) = setLoadingState s u b"
| "reducer s (SetShellProperties b u) = setShellPropertiesAsync s b u"
| "reducer s (SetInitialShellUrl u) = setInitialShellUrl s u"
| "reducer s (LoadHistoryThen h) = loadHistoryAsync_then s h"
| "reducer s ClearHistoryThen = clearHistoryAsync_then s"
| "reducer s (ShowLoadingError e) = showLoadingError s e"
| "reducer s (ClearTaskWithError u) = clearTaskWithError s u"
| "reducer s (LogUncaughtError u) = logUncaughtError s u"

text \<open>Running a sequence of actions from a state, and the states reachable from the initial one.\<close>

definition run :: "BrowserState \<Rightarrow> action list \<Rightarrow> BrowserState" where
  "run s acts = foldl reducer s acts"

inductive reachable :: "BrowserState \<Rightarrow> bool" where
  reachable_init: "reachable initialState"
| reachable_step: "reachable s \<Longrightarrow> reachable (reducer s a)"

section \<open>Concrete inputs and auxiliary predicates\<close>

text \<open>A history item and the meta object of a navigation to a given URL, all other fields null.\<close>

definition historyItemFor :: "string \<Rightarrow> HistoryItem" where
  "historyItemFor u =
     \<lparr> url = Some u, historyBundleUrl = None, historyManifestUrl = None,
       historyManifest = JNull, time = None \<rparr>"

definition navMeta :: "string \<Rightarrow> NavigateMeta" where
  "navMeta u =
     \<lparr> metaUrl = Some u, metaBundleUrl = None, metaManifestUrl = None,
       metaManifest = JNull, metaInitialProps = JNull, historyItem = historyItemFor u \<rparr>"

text \<open>The payload \<open>{originalUrl: u, code: c}\<close> of \<open>showLoadingError\<close>.\<close>

definition errorPayload :: "string \<Rightarrow> int \<Rightarrow> LoadingError" where
  "errorPayload u c = \<lparr> code = c, message = None, originalUrl = Some u, errorManifest = JNull \<rparr>"

text \<open>A task as \<open>createImmutableTask\<close> builds it, with a chosen loading flag.\<close>

definition plainTask :: "bool \<Rightarrow> BrowserTask" where
  "plainTask l =
     \<lparr> bundleUrl = None, manifestUrl = None, manifest = JNull, isLoading = l,
       loadingError = None, initialProps = JNull \<rparr>"

text \<open>
  The scenario of three navigations: to \<open>https://a\<close>, to \<open>https://b\<close> and to
  \<open>https://a\<close> again, from the initial state.
\<close>

definition scenarioABA :: BrowserState where
  "scenarioABA =
     run initialState
       [NavigateToUrlBegin (navMeta ''https://a''),
        NavigateToUrlBegin (navMeta ''https://b''),
        NavigateToUrlBegin (navMeta ''https://a'')]"

text \<open>
  The history lists delivered by the \<open>then\<close> phases come from outside the reducer.
  This predicate holds of an action unless it is such a phase carrying a list in which
  two items share a \<open>url\<close>.
\<close>

fun historyPayloadDistinct :: "action \<Rightarrow> bool" where
  "historyPayloadDistinct (NavigateToUrlThen payload) = distinct (map url payload)"
| "historyPayloadDistinct (LoadHistoryThen payload) = distinct (map url payload)"
| "historyPayloadDistinct _ = True"


text \<open>
  The actions whose handlers write neither \<open>isKernelLoading\<close> nor \<open>tasks\<close>.
\<close>

fun leavesLoadingAlone :: "action \<Rightarrow> bool" where
  "leavesLoadingAlone (NavigateToUrlThen payload) = True"
| "leavesLoadingAlone (ForegroundUrl u) = True"
| "leavesLoadingAlone ForegroundHome = True"
| "leavesLoadingAlone (SetShellProperties b u) = True"
| "leavesLoadingAlone (SetInitialShellUrl u) = True"
| "leavesLoadingAlone (LoadHistoryThen payload) = True"
| "leavesLoadingAlone ClearHistoryThen = True"
| "leavesLoadingAlone _ = False"

text \<open>
  A state in which the kernel flag is set and a task is loading: a navigation to
  \<open>https://a\<close>, whose task is then marked as loading, and the flag set by
  \<open>setKernelLoadingState\<close>.
\<close>

definition loadingStateA :: BrowserState where
  "loadingStateA =
     run initialState
       [NavigateToUrlBegin (navMeta ''https://a''),
        SetLoadingState (Some ''https://a'') True,
        SetKernelLoadingState True]"

section \<open>Auxiliary facts\<close>

lemmas handler_defs =
  navigateToUrlAsync_begin_def navigateToUrlAsync_then_def navigateToUrlAsync_catch_def
  foregroundUrlAsync_def foregroundHomeAsync_def setKernelLoadingState_def setLoadingState_def
  setShellPropertiesAsync_def setInitialShellUrl_def loadHistoryAsync_then_def
  clearHistoryAsync_then_def showLoadingError_def clearTaskWithError_def logUncaughtError_def
  createImmutableTask_def createImmutableHistory_def newHistoryItem_def validateBrowserState_def

lemmas input_defs =
  initialState_def navMeta_def historyItemFor_def errorPayload_def plainTask_def truthy_def

text \<open>
  The size of the filtered value sequence is undefined, so the test never succeeds, whatever
  the tasks are.
\<close>

lemma isAnythingLoading_never: "isAnythingLoading ts = False"
  by (simp add: isAnythingLoading_def filterSeq_def greaterThanZero_def)

text \<open>Rebuilding every item as a \<open>HistoryItem\<close> record leaves a list of such records as it is.\<close>

lemma newHistoryItem_same: "newHistoryItem item = item"
  by (simp add: newHistoryItem_def)

lemma createImmutableHistory_same: "createImmutableHistory items = items"
  unfolding createImmutableHistory_def by (rule map_idI) (simp add: newHistoryItem_same)

lemma reachable_run: "reachable s \<Longrightarrow> reachable (run s acts)"
  unfolding run_def
  by (induction acts arbitrary: s) (auto intro: reachable_step)

lemma run_snoc: "run s (acts @ [a]) = reducer (run s acts) a"
  by (simp add: run_def)

subsection \<open>The history under the reducer\<close>

lemma history_validateBrowserState: "history (validateBrowserState s) = history s"
  by (simp add: validateBrowserState_def)

lemma history_navigateToUrlAsync_begin:
  "history (navigateToUrlAsync_begin s meta) =
     historyItem meta # filter (\<lambda>i. url i \<noteq> url (historyItem meta)) (history s)"
  by (simp add: navigateToUrlAsync_begin_def createImmutableTask_def Let_def
        history_validateBrowserState newHistoryItem_same)

lemma distinct_url_prepend:
  assumes "distinct (map url hs)"
  shows "distinct (map url (item # filter (\<lambda>i. url i \<noteq> url item) hs))"
proof -
  have "url item \<notin> set (map url (filter (\<lambda>i. url i \<noteq> url item) hs))"
    by auto
  moreover have "distinct (map url (filter (\<lambda>i. url i \<noteq> url item) hs))"
    using assms by (rule distinct_map_filter)
  ultimately show ?thesis
    by simp
qed

lemma history_distinct_step:
  assumes "distinct (map url (history s))" and "historyPayloadDistinct a"
  shows "distinct (map url (history (reducer s a)))"
proof (cases a)
  case (NavigateToUrlBegin meta)
  then show ?thesis
    using assms(1)
    by (simp add: history_navigateToUrlAsync_begin distinct_url_prepend
          del: distinct.simps list.map)
next
  case (ShowLoadingError e)
  then show ?thesis
    using assms(1) by (simp add: showLoadingError_def Let_def history_validateBrowserState)
next
  case (NavigateToUrlThen h)
  then show ?thesis
    using assms(2) by (simp add: navigateToUrlAsync_then_def createImmutableHistory_same)
next
  case (LoadHistoryThen h)
  then show ?thesis
    using assms(2) by (simp add: loadHistoryAsync_then_def createImmutableHistory_same)
qed (use assms(1) in \<open>simp_all add: navigateToUrlAsync_catch_def foregroundUrlAsync_def
      foregroundHomeAsync_def setKernelLoadingState_def setLoadingState_def
      setShellPropertiesAsync_def setInitialShellUrl_def clearHistoryAsync_then_def
      clearTaskWithError_def logUncaughtError_def Let_def split: option.splits\<close>)

lemma history_distinct_run:
  "\<forall>a \<in> set acts. historyPayloadDistinct a \<Longrightarrow>
     distinct (map url (history (run initialState acts)))"
proof (induction acts rule: rev_induct)
  case Nil
  show ?case by (simp add: run_def initialState_def)
next
  case (snoc a acts)
  then show ?case
    by (simp add: run_snoc history_distinct_step)
qed

subsection \<open>What \<open>showLoadingError\<close> computes\<close>

lemma isKernelLoading_showLoadingError: "isKernelLoading (showLoadingError s e) = False"
  by (simp add: showLoadingError_def validateBrowserState_def Let_def isAnythingLoading_never)

text \<open>
  The task at \<open>originalUrl\<close>, the foreground and the home flag after
  \<open>showLoadingError\<close>.
\<close>

lemma showLoadingError_result:
  "fmlookup (tasks (showLoadingError s e)) (originalUrl e) =
     Some (case fmlookup (tasks s) (originalUrl e) of
             Some t \<Rightarrow> t\<lparr> isLoading := False, initialProps := JNull, loadingError := Some e \<rparr>
           | None \<Rightarrow> \<lparr> bundleUrl = None, manifestUrl = None, manifest = JNull,
                        isLoading = False, loadingError = Some e, initialProps = JNull \<rparr>) \<and>
   foregroundTaskUrl (showLoadingError s e) = originalUrl e \<and>
   isHomeVisible (showLoadingError s e) = False"
  by (simp add: showLoadingError_def validateBrowserState_def Let_def split: option.splits)

text \<open>
  The scenario \<open>showLoadingError({originalUrl: "https://a", code: 404})\<close> on the initial
  state.
\<close>

lemma showLoadingError_scenario:
  "fmlookup (tasks (showLoadingError initialState (errorPayload ''https://a'' 404)))
     (Some ''https://a'') =
     Some \<lparr> bundleUrl = None, manifestUrl = None, manifest = JNull, isLoading = False,
            loadingError = Some (errorPayload ''https://a'' 404), initialProps = JNull \<rparr> \<and>
   code (errorPayload ''https://a'' 404) = 404 \<and>
   foregroundTaskUrl (showLoadingError initialState (errorPayload ''https://a'' 404)) =
     Some ''https://a'' \<and>
   isHomeVisible (showLoadingError initialState (errorPayload ''https://a'' 404)) = False"
  by (simp add: handler_defs input_defs Let_def)

section \<open>The kernel loading flag\<close>

text \<open>
  C1, as stated: in every reachable state \<open>isKernelLoading\<close> is true if and only if some
  task is loading. This fails: \<open>setKernelLoadingState\<close> stores its payload whatever the
  tasks are, so from the initial state the flag is true while there is no task at all.
\<close>

theorem kernelLoading_invariant_counterexample:
  "reachable (reducer initialState (SetKernelLoadingState True)) \<and>
   isKernelLoading (reducer initialState (SetKernelLoadingState True)) \<and>
   tasks (reducer initialState (SetKernelLoadingState True)) = fmempty"
proof -
  have "reachable (reducer initialState (SetKernelLoadingState True))"
    by (rule reachable_step) (rule reachable_init)
  then show ?thesis
    by (simp add: setKernelLoadingState_def initialState_def)
qed

text \<open>
  C1, amended: the equivalence holds in the initial state, and it is carried over by every
  action whose handler writes neither \<open>isKernelLoading\<close> nor \<open>tasks\<close>
  (\<open>foregroundUrlAsync\<close>, \<open>foregroundHomeAsync\<close>, \<open>setShellPropertiesAsync\<close>,
  \<open>setInitialShellUrl\<close> and the \<open>then\<close> phases of \<open>navigateToUrlAsync\<close>,
  \<open>loadHistoryAsync\<close> and \<open>clearHistoryAsync\<close>); \<open>setKernelLoadingState\<close> sets
  the flag to its payload and leaves the tasks as they are, whatever they are, so the
  equivalence is not an invariant of the reachable states.
\<close>

theorem kernelLoading_equivalence_frame:
  "(isKernelLoading initialState \<longleftrightarrow>
      (\<exists>v t. fmlookup (tasks initialState) v = Some t \<and> isLoading t)) \<and>
   (leavesLoadingAlone a \<longrightarrow>
      isKernelLoading (reducer s a) = isKernelLoading s \<and> tasks (reducer s a) = tasks s) \<and>
   (leavesLoadingAlone a \<and>
    (isKernelLoading s \<longleftrightarrow> (\<exists>v t. fmlookup (tasks s) v = Some t \<and> isLoading t)) \<longrightarrow>
      (isKernelLoading (reducer s a) \<longleftrightarrow>
         (\<exists>v t. fmlookup (tasks (reducer s a)) v = Some t \<and> isLoading t))) \<and>
   isKernelLoading (reducer s (SetKernelLoadingState b)) = b \<and>
   tasks (reducer s (SetKernelLoadingState b)) = tasks s"
proof -
  have frame: "leavesLoadingAlone a \<longrightarrow>
      isKernelLoading (reducer s a) = isKernelLoading s \<and> tasks (reducer s a) = tasks s"
    by (cases a)
       (simp_all add: navigateToUrlAsync_then_def foregroundUrlAsync_def foregroundHomeAsync_def
          setShellPropertiesAsync_def setInitialShellUrl_def loadHistoryAsync_then_def
          clearHistoryAsync_then_def)
  have init: "isKernelLoading initialState \<longleftrightarrow>
      (\<exists>v t. fmlookup (tasks initialState) v = Some t \<and> isLoading t)"
    by (simp add: initialState_def)
  have setter: "isKernelLoading (reducer s (SetKernelLoadingState b)) = b \<and>
      tasks (reducer s (SetKernelLoadingState b)) = tasks s"
    by (simp add: setKernelLoadingState_def)
  from frame have "leavesLoadingAlone a \<and>
    (isKernelLoading s \<longleftrightarrow> (\<exists>v t. fmlookup (tasks s) v = Some t \<and> isLoading t)) \<longrightarrow>
      (isKernelLoading (reducer s a) \<longleftrightarrow>
         (\<exists>v t. fmlookup (tasks (reducer s a)) v = Some t \<and> isLoading t))"
    by simp
  with frame init setter show ?thesis
    by (intro conjI) simp_all
qed

theorem kernelLoading_equivalence_frame_witness:
  "leavesLoadingAlone ForegroundHome \<and>
   isKernelLoading loadingStateA = True \<and>
   fmlookup (tasks loadingStateA) (Some ''https://a'') = Some (plainTask True) \<and>
   isLoading (plainTask True) \<and>
   isKernelLoading (reducer loadingStateA ForegroundHome) = True \<and>
   fmlookup (tasks (reducer loadingStateA ForegroundHome)) (Some ''https://a'') =
     Some (plainTask True)"
  using kernelLoading_equivalence_frame [of ForegroundHome loadingStateA True]
  by (simp add: loadingStateA_def run_def handler_defs input_defs Let_def
        isAnythingLoading_never)

section \<open>The normalization pass\<close>

text \<open>
  C2, as stated: the pass filters the tasks only in shell mode, so that outside shell mode
  the three navigations to \<open>https://a\<close>, \<open>https://b\<close> and \<open>https://a\<close> leave both
  tasks in place. This fails: the initial state is not a shell, and after the three
  navigations there is no task at \<open>https://b\<close>.
\<close>

theorem scenario_tasks_counterexample:
  "isShell initialState = False \<and>
   fmlookup
     (tasks (run initialState
               [NavigateToUrlBegin (navMeta ''https://a''),
                NavigateToUrlBegin (navMeta ''https://b''),
                NavigateToUrlBegin (navMeta ''https://a'')]))
     (Some ''https://b'') = None"
  by (simp add: run_def handler_defs input_defs Let_def)

text \<open>
  C2, amended: whenever the foreground URL is truthy, the pass keeps exactly the foreground
  task and, only when \<open>isShell\<close> holds, the task at \<open>shellManifestUrl\<close>; every other
  task is dropped, in shell mode or not. The three navigations therefore yield the history
  \<open>[a, b]\<close>, the single task \<open>a\<close>, and the foreground \<open>a\<close>.
\<close>

theorem validateBrowserState_filter_and_scenario:
  "fmlookup (tasks (validateBrowserState s)) u =
     (if truthy (foregroundTaskUrl s) \<and> u \<noteq> foregroundTaskUrl s \<and>
         \<not> (isShell s \<and> u = shellManifestUrl s)
      then None else fmlookup (tasks s) u) \<and>
   map url (history scenarioABA) = [Some ''https://a'', Some ''https://b''] \<and>
   fmdom (tasks scenarioABA) = {|Some ''https://a''|} \<and>
   foregroundTaskUrl scenarioABA = Some ''https://a''"
  by (auto simp: scenarioABA_def run_def handler_defs input_defs Let_def)

text \<open>
  C3, as stated: in every reachable state with \<open>isShell\<close> and a non-null foreground URL,
  every task key is the foreground URL or \<open>shellManifestUrl\<close>. This fails: in a shell
  with manifest \<open>https://m\<close>, navigating to \<open>https://m\<close> and to \<open>https://a\<close> and then
  foregrounding \<open>https://m\<close> leaves the task \<open>https://a\<close> in place, since
  \<open>foregroundUrlAsync\<close> does not run the pass.
\<close>

theorem shell_tasks_invariant_counterexample:
  "reachable
     (run initialState
        [SetShellProperties True (Some ''https://m''),
         NavigateToUrlBegin (navMeta ''https://m''),
         NavigateToUrlBegin (navMeta ''https://a''),
         ForegroundUrl (Some ''https://m'')]) \<and>
   isShell
     (run initialState
        [SetShellProperties True (Some ''https://m''),
         NavigateToUrlBegin (navMeta ''https://m''),
         NavigateToUrlBegin (navMeta ''https://a''),
         ForegroundUrl (Some ''https://m'')]) \<and>
   foregroundTaskUrl
     (run initialState
        [SetShellProperties True (Some ''https://m''),
         NavigateToUrlBegin (navMeta ''https://m''),
         NavigateToUrlBegin (navMeta ''https://a''),
         ForegroundUrl (Some ''https://m'')]) = Some ''https://m'' \<and>
   shellManifestUrl
     (run initialState
        [SetShellProperties True (Some ''https://m''),
         NavigateToUrlBegin (navMeta ''https://m''),
         NavigateToUrlBegin (navMeta ''https://a''),
         ForegroundUrl (Some ''https://m'')]) = Some ''https://m'' \<and>
   fmlookup
     (tasks
        (run initialState
           [SetShellProperties True (Some ''https://m''),
            NavigateToUrlBegin (navMeta ''https://m''),
            NavigateToUrlBegin (navMeta ''https://a''),
            ForegroundUrl (Some ''https://m'')]))
     (Some ''https://a'') = Some (plainTask False)"
proof -
  have "reachable
     (run initialState
        [SetShellProperties True (Some ''https://m''),
         NavigateToUrlBegin (navMeta ''https://m''),
         NavigateToUrlBegin (navMeta ''https://a''),
         ForegroundUrl (Some ''https://m'')])"
    by (rule reachable_run) (rule reachable_init)
  then show ?thesis
    by (simp add: run_def handler_defs input_defs Let_def)
qed

text \<open>
  C3, amended: in the state produced by the begin phase of \<open>navigateToUrlAsync\<close> or by
  \<open>showLoadingError\<close>, the two transitions that end with the normalization pass, from any
  state: if \<open>isShell\<close> holds and the foreground URL is truthy (neither null nor the empty
  string), then every task key is the foreground URL or \<open>shellManifestUrl\<close>.
\<close>

theorem validated_transitions_shell_tasks:
  assumes "a = NavigateToUrlBegin meta \<or> a = ShowLoadingError e"
    and "isShell (reducer s a)"
    and "truthy (foregroundTaskUrl (reducer s a))"
    and "fmlookup (tasks (reducer s a)) u \<noteq> None"
  shows "u = foregroundTaskUrl (reducer s a) \<or> u = shellManifestUrl (reducer s a)"
  using assms
  by (auto simp: navigateToUrlAsync_begin_def showLoadingError_def createImmutableTask_def
        validateBrowserState_def Let_def split: if_splits)

theorem validated_transitions_shell_tasks_witness:
  "isShell (reducer (run initialState
              [SetShellProperties True (Some ''https://m''),
               NavigateToUrlBegin (navMeta ''https://m''),
               NavigateToUrlBegin (navMeta ''https://a'')])
            (NavigateToUrlBegin (navMeta ''https://b''))) \<and>
   truthy (foregroundTaskUrl (reducer (run initialState
              [SetShellProperties True (Some ''https://m''),
               NavigateToUrlBegin (navMeta ''https://m''),
               NavigateToUrlBegin (navMeta ''https://a'')])
            (NavigateToUrlBegin (navMeta ''https://b'')))) \<and>
   fmlookup (tasks (reducer (run initialState
              [SetShellProperties True (Some ''https://m''),
               NavigateToUrlBegin (navMeta ''https://m''),
               NavigateToUrlBegin (navMeta ''https://a'')])
            (NavigateToUrlBegin (navMeta ''https://b'')))) (Some ''https://m'') \<noteq> None \<and>
   Some ''https://m'' =
     shellManifestUrl (reducer (run initialState
              [SetShellProperties True (Some ''https://m''),
               NavigateToUrlBegin (navMeta ''https://m''),
               NavigateToUrlBegin (navMeta ''https://a'')])
            (NavigateToUrlBegin (navMeta ''https://b'')))"
  using validated_transitions_shell_tasks
          [of "NavigateToUrlBegin (navMeta ''https://b'')" "navMeta ''https://b''"
              "errorPayload ''https://b'' 0"
              "run initialState
                 [SetShellProperties True (Some ''https://m''),
                  NavigateToUrlBegin (navMeta ''https://m''),
                  NavigateToUrlBegin (navMeta ''https://a'')]"
              "Some ''https://m''"]
  by (simp add: run_def handler_defs input_defs Let_def)

section \<open>The history\<close>

text \<open>
  C4, as stated: in every reachable state, the \<open>then\<close> phases with arbitrary payload
  lists included, no two history items share a \<open>url\<close>. This fails: the \<open>then\<close>
  phase of \<open>loadHistoryAsync\<close> installs its payload as it is, so a payload with the same
  URL twice gives a history with that URL twice.
\<close>

theorem history_duplicates_counterexample:
  "reachable
     (reducer initialState
        (LoadHistoryThen [historyItemFor ''https://a'', historyItemFor ''https://a''])) \<and>
   map url
     (history
        (reducer initialState
           (LoadHistoryThen [historyItemFor ''https://a'', historyItemFor ''https://a'']))) =
     [Some ''https://a'', Some ''https://a'']"
proof -
  have "reachable
     (reducer initialState
        (LoadHistoryThen [historyItemFor ''https://a'', historyItemFor ''https://a'']))"
    by (rule reachable_step) (rule reachable_init)
  then show ?thesis
    by (simp add: loadHistoryAsync_then_def createImmutableHistory_def newHistoryItem_def
          historyItemFor_def)
qed

text \<open>
  C4, amended: no two history items share a \<open>url\<close> in every state reached from the
  initial state by actions whose \<open>then\<close> payloads have no repeated \<open>url\<close>; the
  \<open>then\<close> phases of \<open>navigateToUrlAsync\<close> and \<open>loadHistoryAsync\<close> install the
  payload list as given; and the begin phase of \<open>navigateToUrlAsync\<close> puts the new item
  at the front, followed by the old history without the items of the same \<open>url\<close>, which
  keeps the URLs distinct.
\<close>

theorem history_distinct_given_distinct_payloads:
  "((\<forall>a \<in> set acts. historyPayloadDistinct a) \<longrightarrow>
      distinct (map url (history (run initialState acts)))) \<and>
   history (reducer s (NavigateToUrlThen payload)) = payload \<and>
   history (reducer s (LoadHistoryThen payload)) = payload \<and>
   hd (history (reducer s (NavigateToUrlBegin meta))) = historyItem meta \<and>
   tl (history (reducer s (NavigateToUrlBegin meta))) =
     filter (\<lambda>i. url i \<noteq> url (historyItem meta)) (history s) \<and>
   url (historyItem meta) \<notin> url ` set (tl (history (reducer s (NavigateToUrlBegin meta)))) \<and>
   (distinct (map url (history s)) \<longrightarrow>
      distinct (map url (history (reducer s (NavigateToUrlBegin meta)))))"
proof -
  have "(\<forall>a \<in> set acts. historyPayloadDistinct a) \<longrightarrow>
      distinct (map url (history (run initialState acts)))"
    using history_distinct_run by blast
  moreover have "distinct (map url (history s)) \<longrightarrow>
      distinct (map url (history (reducer s (NavigateToUrlBegin meta))))"
    using history_distinct_step [of s "NavigateToUrlBegin meta"] by simp
  moreover have "url (historyItem meta) \<notin>
      url ` set (tl (history (reducer s (NavigateToUrlBegin meta))))"
    by (auto simp: history_navigateToUrlAsync_begin)
  ultimately show ?thesis
    by (simp add: history_navigateToUrlAsync_begin navigateToUrlAsync_then_def
          loadHistoryAsync_then_def createImmutableHistory_same)
qed

theorem history_distinct_given_distinct_payloads_witness:
  "historyPayloadDistinct (NavigateToUrlBegin (navMeta ''https://a'')) \<and>
   historyPayloadDistinct
     (LoadHistoryThen [historyItemFor ''https://b'', historyItemFor ''https://a'']) \<and>
   distinct (map url (history initialState)) \<and>
   distinct (map url (history (reducer initialState (NavigateToUrlBegin (navMeta ''https://a''))))) \<and>
   distinct (map url (history (run initialState
              [NavigateToUrlBegin (navMeta ''https://a''),
               LoadHistoryThen [historyItemFor ''https://b'', historyItemFor ''https://a''],
               NavigateToUrlBegin (navMeta ''https://a'')]))) \<and>
   map url (history (run initialState
              [NavigateToUrlBegin (navMeta ''https://a''),
               LoadHistoryThen [historyItemFor ''https://b'', historyItemFor ''https://a''],
               NavigateToUrlBegin (navMeta ''https://a'')])) =
     [Some ''https://a'', Some ''https://b'']"
  using history_distinct_given_distinct_payloads
          [of "[NavigateToUrlBegin (navMeta ''https://a''),
               LoadHistoryThen [historyItemFor ''https://b'', historyItemFor ''https://a''],
               NavigateToUrlBegin (navMeta ''https://a'')]"
              initialState "[]" "navMeta ''https://a''"]
  by (simp add: run_def handler_defs input_defs Let_def)

section \<open>Loading state of a task\<close>

text \<open>
  What \<open>setLoadingState\<close> does to the tasks: for a URL that is not tracked it returns
  the state unchanged; for a tracked URL it sets that task's \<open>isLoading\<close> to the
  payload flag, sets its \<open>loadingError\<close> to null when the flag is true and keeps it
  when the flag is false, and leaves the other tasks alone. The value it writes to
  \<open>isKernelLoading\<close> is false, whatever the tasks are.
\<close>

lemma setLoadingState_tasks:
  "(fmlookup (tasks s) u = None \<longrightarrow> setLoadingState s u b = s) \<and>
   (fmlookup (tasks s) u = Some t \<longrightarrow>
      fmlookup (tasks (setLoadingState s u b)) u =
        Some (t\<lparr> isLoading := b, loadingError := (if b then None else loadingError t) \<rparr>) \<and>
      (\<forall>v. v \<noteq> u \<longrightarrow> fmlookup (tasks (setLoadingState s u b)) v = fmlookup (tasks s) v) \<and>
      isKernelLoading (setLoadingState s u b) = False \<and>
      setLoadingState s u b =
        s\<lparr> isKernelLoading := False, tasks := tasks (setLoadingState s u b) \<rparr>)"
  by (simp add: setLoadingState_def Let_def isAnythingLoading_never)

text \<open>
  C5: \<open>setLoadingState\<close> for a tracked URL sets \<open>isKernelLoading\<close> to true if and
  only if some task of the resulting map is loading. The code tests the \<open>size\<close> of a
  lazily filtered sequence, which is undefined: after a navigation to \<open>https://a\<close>,
  \<open>setLoadingState\<close> for \<open>https://a\<close> with the flag true marks the task as loading
  and leaves \<open>isKernelLoading\<close> false.
\<close>

theorem setLoadingState_kernelLoading_stays_false:
  "fmlookup (tasks (run initialState [NavigateToUrlBegin (navMeta ''https://a'')]))
     (Some ''https://a'') = Some (plainTask False) \<and>
   fmlookup
     (tasks (setLoadingState (run initialState [NavigateToUrlBegin (navMeta ''https://a'')])
               (Some ''https://a'') True))
     (Some ''https://a'') = Some (plainTask True) \<and>
   isLoading (plainTask True) = True \<and>
   isKernelLoading
     (setLoadingState (run initialState [NavigateToUrlBegin (navMeta ''https://a'')])
        (Some ''https://a'') True) = False"
  by (simp add: run_def handler_defs input_defs Let_def isAnythingLoading_never)

section \<open>Foreground and home\<close>

text \<open>
  C6: \<open>foregroundUrlAsync\<close> with a null URL or a URL present in the tasks sets
  \<open>foregroundTaskUrl\<close> to that URL, hides home and changes nothing else; with a non-null
  URL that is absent from the tasks it returns the state unchanged.
\<close>

theorem foregroundUrlAsync_spec:
  "(u = None \<or> fmlookup (tasks s) u \<noteq> None \<longrightarrow>
      foregroundUrlAsync s u = s\<lparr> isHomeVisible := False, foregroundTaskUrl := u \<rparr> \<and>
      foregroundTaskUrl (foregroundUrlAsync s u) = u \<and>
      isHomeVisible (foregroundUrlAsync s u) = False) \<and>
   (u \<noteq> None \<and> fmlookup (tasks s) u = None \<longrightarrow> foregroundUrlAsync s u = s)"
  by (auto simp: foregroundUrlAsync_def fmlookup_dom_iff)

theorem foregroundUrlAsync_spec_witness:
  "fmlookup (tasks (initialState\<lparr> tasks := fmupd (Some ''https://a'') (plainTask False) fmempty \<rparr>))
       (Some ''https://a'') \<noteq> None \<and>
   foregroundTaskUrl
     (foregroundUrlAsync (initialState\<lparr> tasks := fmupd (Some ''https://a'') (plainTask False) fmempty \<rparr>)
        (Some ''https://a'')) = Some ''https://a'' \<and>
   Some ''https://b'' \<noteq> None \<and> fmlookup (tasks initialState) (Some ''https://b'') = None \<and>
   foregroundUrlAsync initialState (Some ''https://b'') = initialState"
  using foregroundUrlAsync_spec
          [of "Some ''https://a''"
              "initialState\<lparr> tasks := fmupd (Some ''https://a'') (plainTask False) fmempty \<rparr>"]
        foregroundUrlAsync_spec [of "Some ''https://b''" initialState]
  by (simp add: initialState_def)

section \<open>Loading errors\<close>

text \<open>
  C7: after \<open>showLoadingError\<close>, the task at \<open>originalUrl\<close> holds the error, that URL
  is in the foreground, home is hidden, and \<open>isKernelLoading\<close> equals whether any
  remaining task is loading. The code tests the \<open>size\<close> of a lazily filtered sequence,
  which is undefined, so the flag it writes is always false: in a shell with manifest
  \<open>https://m\<close>, after a navigation to \<open>https://m\<close> whose task is then marked as
  loading, \<open>showLoadingError\<close> for \<open>https://a\<close> keeps the loading task
  \<open>https://m\<close> and leaves \<open>isKernelLoading\<close> false.
\<close>

theorem showLoadingError_kernelLoading_false_with_loading_task:
  "isShell
     (run initialState
        [SetShellProperties True (Some ''https://m''),
         NavigateToUrlBegin (navMeta ''https://m''),
         SetLoadingState (Some ''https://m'') True,
         ShowLoadingError (errorPayload ''https://a'' 404)]) = True \<and>
   fmlookup
     (tasks
        (run initialState
           [SetShellProperties True (Some ''https://m''),
            NavigateToUrlBegin (navMeta ''https://m''),
            SetLoadingState (Some ''https://m'') True,
            ShowLoadingError (errorPayload ''https://a'' 404)]))
     (Some ''https://m'') = Some (plainTask True) \<and>
   isLoading (plainTask True) = True \<and>
   foregroundTaskUrl
     (run initialState
        [SetShellProperties True (Some ''https://m''),
         NavigateToUrlBegin (navMeta ''https://m''),
         SetLoadingState (Some ''https://m'') True,
         ShowLoadingError (errorPayload ''https://a'' 404)]) = Some ''https://a'' \<and>
   isKernelLoading
     (run initialState
        [SetShellProperties True (Some ''https://m''),
         NavigateToUrlBegin (navMeta ''https://m''),
         SetLoadingState (Some ''https://m'') True,
         ShowLoadingError (errorPayload ''https://a'' 404)]) = False"
  by (simp add: run_def handler_defs input_defs Let_def isAnythingLoading_never)

section \<open>Failure of a navigation\<close>

text \<open>
  C8: the catch phase of \<open>navigateToUrlAsync\<close> sets \<open>isKernelLoading\<close> to false and
  leaves every other field of the state unchanged: the history, the tasks, the foreground
  URL, the home flag and the shell fields.
\<close>

theorem navigateToUrlAsync_catch_frame:
  "reducer s (NavigateToUrlCatch e) = s\<lparr> isKernelLoading := False \<rparr> \<and>
   isKernelLoading (reducer s (NavigateToUrlCatch e)) = False \<and>
   history (reducer s (NavigateToUrlCatch e)) = history s \<and>
   tasks (reducer s (NavigateToUrlCatch e)) = tasks s \<and>
   foregroundTaskUrl (reducer s (NavigateToUrlCatch e)) = foregroundTaskUrl s \<and>
   isHomeVisible (reducer s (NavigateToUrlCatch e)) = isHomeVisible s \<and>
   isShell (reducer s (NavigateToUrlCatch e)) = isShell s \<and>
   shellManifestUrl (reducer s (NavigateToUrlCatch e)) = shellManifestUrl s \<and>
   shellInitialUrl (reducer s (NavigateToUrlCatch e)) = shellInitialUrl s"
  by (simp add: navigateToUrlAsync_catch_def)

section \<open>Eviction of a task\<close>

text \<open>
  C9: \<open>clearTaskWithError\<close> for a URL present in the tasks yields a state with home
  visible, no foreground URL and no task at that URL; for an absent URL the state is
  returned unchanged; so applying it twice is the same as applying it once.
\<close>

theorem clearTaskWithError_spec:
  "(fmlookup (tasks s) u \<noteq> None \<longrightarrow>
      isHomeVisible (clearTaskWithError s u) = True \<and>
      foregroundTaskUrl (clearTaskWithError s u) = None \<and>
      fmlookup (tasks (clearTaskWithError s u)) u = None) \<and>
   (fmlookup (tasks s) u = None \<longrightarrow> clearTaskWithError s u = s) \<and>
   clearTaskWithError (clearTaskWithError s u) u = clearTaskWithError s u"
  by (auto simp: clearTaskWithError_def split: option.splits)

theorem clearTaskWithError_spec_witness:
  "fmlookup (tasks (run initialState [NavigateToUrlBegin (navMeta ''https://a'')]))
       (Some ''https://a'') \<noteq> None \<and>
   isHomeVisible
     (clearTaskWithError (run initialState [NavigateToUrlBegin (navMeta ''https://a'')])
        (Some ''https://a'')) = True \<and>
   fmlookup (tasks initialState) (Some ''https://a'') = None \<and>
   clearTaskWithError initialState (Some ''https://a'') = initialState"
  using clearTaskWithError_spec
          [of "run initialState [NavigateToUrlBegin (navMeta ''https://a'')]" "Some ''https://a''"]
        clearTaskWithError_spec [of initialState "Some ''https://a''"]
  by (simp add: run_def handler_defs input_defs Let_def)



end
